theory Spec2Isabelle
  imports Main
begin

section \<open>GraphQL mutation resolution (package resolve)\<close>

subsection \<open>Structured errors and the objects they point to\<close>

text \<open>
  A GraphQL error carries a message, source locations and a path. The path is a Go
  \<^verbatim>\<open>[]interface{}\<close> whose steps are field names or list indices.
\<close>

datatype PathElem = PathField string | PathIndex int

record Location =
  Line :: int
  Column :: int

record GqlError =
  Message :: string
  Locations :: "Location list"
  Path :: "PathElem list"

text \<open>
  The resolver handles errors through pointers (\<^verbatim>\<open>*x.GqlError\<close>) and rewrites their
  \<^verbatim>\<open>Path\<close> field in place, so error objects live in a store and an error list is a
  list of addresses: the same object may occur in a list more than once.
\<close>

type_synonym addr = nat

text \<open>
  A non-nil value of Go's \<^verbatim>\<open>error\<close> interface, as far as the resolver tells the cases
  apart: one structured error, a list of them (\<^verbatim>\<open>x.GqlErrorList\<close>), or any other
  error, of which only the text is known. The nil interface is \<open>None\<close>.
\<close>

datatype error = GqlErrorPtr addr | GqlErrorListV "addr list" | PlainError string

text \<open>
  The state the resolver runs in: the store of error objects with its allocation
  pointer, and everything else the collaborators read and write (the backend, the
  rewriters' caches), which the resolver never inspects.
\<close>

record 'x world =
  heap :: "addr \<Rightarrow> GqlError"
  next_addr :: addr
  ext :: 'x

definition alloc :: "GqlError \<Rightarrow> 'x world \<Rightarrow> addr \<times> 'x world" where
  "alloc e w =
     (next_addr w, w\<lparr>heap := (heap w)(next_addr w := e), next_addr := Suc (next_addr w)\<rparr>)"

text \<open>The text \<^verbatim>\<open>err.Error()\<close> prints; a list prints its messages one per line.\<close>

fun errorText :: "(addr \<Rightarrow> GqlError) \<Rightarrow> error \<Rightarrow> string" where
  "errorText h (GqlErrorPtr p) = Message (h p)"
| "errorText h (GqlErrorListV ps) = concat (map (\<lambda>p. Message (h p) @ [CHR 0x0A]) ps)"
| "errorText h (PlainError s) = s"

text \<open>
  Modelled from the spec: \<^verbatim>\<open>schema.GQLWrapf\<close>, whose source is not among the files.
  The spec says errors are wrapped with context at each boundary crossing rather than
  passed through opaquely, and that every reported failure is a structured error. So a
  nil error stays nil, and any other error becomes one new structured error whose
  message is the context followed by the cause; location and path of a structured
  cause are kept. The wording that joins context and cause is not fixed by the spec and
  no theorem below depends on it.
\<close>

definition GQLWrapf :: "error option \<Rightarrow> string \<Rightarrow> 'x world \<Rightarrow> error option \<times> 'x world" where
  "GQLWrapf err context w =
     (case err of
        None \<Rightarrow> (None, w)
      | Some e \<Rightarrow>
          (let wrapped =
                 (case e of
                    GqlErrorPtr p \<Rightarrow>
                      \<lparr>Message = context @ '' because '' @ Message (heap w p),
                       Locations = Locations (heap w p),
                       Path = Path (heap w p)\<rparr>
                  | _ \<Rightarrow>
                      \<lparr>Message = context @ '' because '' @ errorText (heap w) e,
                       Locations = [],
                       Path = []\<rparr>)
           in case alloc wrapped w of (p, w') \<Rightarrow> (Some (GqlErrorPtr p), w')))"

text \<open>
  Modelled from the spec: \<^verbatim>\<open>schema.GQLWrapLocationf\<close>, absent from the files too. The
  spec says the error of a failed backend mutation includes the mutation's name and
  source location: the wrapped error of \<open>GQLWrapf\<close> with the location added.
\<close>

definition GQLWrapLocationf ::
  "error option \<Rightarrow> Location \<Rightarrow> string \<Rightarrow> 'x world \<Rightarrow> error option \<times> 'x world" where
  "GQLWrapLocationf err loc context w =
     (case GQLWrapf err context w of
        (Some (GqlErrorPtr p), w') \<Rightarrow>
          (Some (GqlErrorPtr p),
           w'\<lparr>heap := (heap w')(p := (heap w' p)\<lparr>Locations := Locations (heap w' p) @ [loc]\<rparr>)\<rparr>)
      | r \<Rightarrow> r)"

text \<open>
  Modelled from the spec: \<^verbatim>\<open>schema.AsGQLErrors\<close>, absent from the files. The spec's
  result carries an ordered sequence of structured errors: nil gives the empty
  sequence, one structured error a sequence of that one object, a list itself, and any
  other error one new structured error holding its text, with no path.
\<close>

definition AsGQLErrors :: "error option \<Rightarrow> 'x world \<Rightarrow> addr list \<times> 'x world" where
  "AsGQLErrors err w =
     (case err of
        None \<Rightarrow> ([], w)
      | Some (GqlErrorPtr p) \<Rightarrow> ([p], w)
      | Some (GqlErrorListV ps) \<Rightarrow> (ps, w)
      | Some (PlainError s) \<Rightarrow>
          (case alloc \<lparr>Message = s, Locations = [], Path = []\<rparr> w of (p, w') \<Rightarrow> ([p], w')))"

text \<open>
  \<^verbatim>\<open>gqlerror.Errorf\<close> of the GraphQL parser library: a new error with the message and
  neither location nor path.
\<close>

definition Errorf :: "string \<Rightarrow> 'x world \<Rightarrow> error option \<times> 'x world" where
  "Errorf msg w =
     (case alloc \<lparr>Message = msg, Locations = [], Path = []\<rparr> w of
        (p, w') \<Rightarrow> (Some (GqlErrorPtr p), w'))"

subsection \<open>The mutation field and the collaborators\<close>

datatype MutationType = AddMutation | DeleteMutation | UpdateMutation | NotSupportedMutation

text \<open>
  \<^verbatim>\<open>schema.Mutation\<close> is an interface of getters; the resolver reads these. The nested
  selection (\<^verbatim>\<open>QueryField()\<close>) is only handed on, so its type is left open.
\<close>

record 'f Mutation =
  MutationType :: MutationType
  ResponseName :: string
  Name :: string
  Alias :: string
  MutationLocation :: Location
  QueryField :: 'f

text \<open>
  The collaborator interfaces. Each method may read and change the world (the backend
  executes writes; any of them may allocate the error it returns), and returns its Go
  result tuple. \<open>'m\<close> is a backend mutation, \<open>'q\<close> a backend query, \<open>'a\<close> the
  identifiers a mutation assigned; a backend response is bytes. The context argument
  is part of the world.
\<close>

record ('f, 'm, 'q, 'x) MutationRewriter =
  Rewrite :: "'f Mutation \<Rightarrow> 'x world \<Rightarrow> ('m \<times> error option) \<times> 'x world"
  RewriteDelete :: "'f Mutation \<Rightarrow> 'x world \<Rightarrow> ('q \<times> 'm \<times> error option) \<times> 'x world"

record ('f, 'q, 'a, 'x) QueryRewriter =
  FromMutationResult :: "'f Mutation \<Rightarrow> 'a \<Rightarrow> 'x world \<Rightarrow> ('q \<times> error option) \<times> 'x world"

record ('m, 'q, 'a, 'x) Client =
  Mutate :: "'m \<Rightarrow> 'x world \<Rightarrow> ('a \<times> error option) \<times> 'x world"
  Query :: "'q \<Rightarrow> 'x world \<Rightarrow> (string \<times> error option) \<times> 'x world"
  DeleteNodes :: "'q \<Rightarrow> 'm \<Rightarrow> 'x world \<Rightarrow> error option \<times> 'x world"

text \<open>
  The resolver of one mutation field. The struct's \<^verbatim>\<open>schema\<close> field is not read by
  the functions below. \<^verbatim>\<open>completeDgraphResult\<close> is a function of the package whose
  source is not among the files; it is a parameter here.
\<close>

record ('f, 'm, 'q, 'a, 'x) mutationResolver =
  mutation :: "'f Mutation"
  mutationRewriter :: "('f, 'm, 'q, 'x) MutationRewriter"
  queryRewriter :: "('f, 'q, 'a, 'x) QueryRewriter"
  dgraph :: "('m, 'q, 'a, 'x) Client"
  completeDgraphResult :: "'f \<Rightarrow> string \<Rightarrow> 'x world \<Rightarrow> (string \<times> error option) \<times> 'x world"

record resolved =
  data :: string
  err :: "error option"

definition mutationFailed :: bool where
  "mutationFailed = False"

definition mutationSucceeded :: bool where
  "mutationSucceeded = True"

subsection \<open>The add and update pipeline\<close>

text \<open>
  The trace span of the source is started, annotated and stopped without any effect on
  the result; it is left out.
\<close>

definition resolveMutation ::
  "('f, 'm, 'q, 'a, 'x) mutationResolver \<Rightarrow> 'x world \<Rightarrow> (resolved \<times> bool) \<times> 'x world" where
  "resolveMutation mr w =
     (let res = \<lparr>data = [], err = None\<rparr> in
      case Rewrite (mutationRewriter mr) (mutation mr) w of
        ((mut, Some e), w1) \<Rightarrow>
          (case GQLWrapf (Some e) ''couldn't rewrite mutation'' w1 of
             (e', w2) \<Rightarrow> ((res\<lparr>err := e'\<rparr>, mutationFailed), w2))
      | ((mut, None), w1) \<Rightarrow>
          (case Mutate (dgraph mr) mut w1 of
             ((assigned, Some e), w2) \<Rightarrow>
               (case GQLWrapLocationf (Some e) (MutationLocation (mutation mr))
                       (''mutation '' @ Name (mutation mr) @ '' failed'') w2 of
                  (e', w3) \<Rightarrow> ((res\<lparr>err := e'\<rparr>, mutationFailed), w3))
           | ((assigned, None), w2) \<Rightarrow>
               (case FromMutationResult (queryRewriter mr) (mutation mr) assigned w2 of
                  ((dgQuery, Some e), w3) \<Rightarrow>
                    (case GQLWrapf (Some e)
                            (''couldn't rewrite mutation '' @ Name (mutation mr)) w3 of
                       (e', w4) \<Rightarrow> ((res\<lparr>err := e'\<rparr>, mutationSucceeded), w4))
                | ((dgQuery, None), w3) \<Rightarrow>
                    (case Query (dgraph mr) dgQuery w3 of
                       ((resp, Some e), w4) \<Rightarrow>
                         (case GQLWrapf (Some e)
                                 (''mutation '' @ Name (mutation mr) @
                                  '' created a node but query failed'') w4 of
                            (e', w5) \<Rightarrow> ((res\<lparr>err := e'\<rparr>, mutationSucceeded), w5))
                     | ((resp, None), w4) \<Rightarrow>
                         (case completeDgraphResult mr (QueryField (mutation mr)) resp w4 of
                            ((d, e'), w5) \<Rightarrow>
                              ((res\<lparr>data := d, err := e'\<rparr>, mutationSucceeded), w5))))))"

subsection \<open>The delete pipeline\<close>

definition deletedMsg :: string where
  \<open>deletedMsg = ''{ "msg": "Deleted" }''\<close>

definition resolveDeleteMutation ::
  "('f, 'm, 'q, 'a, 'x) mutationResolver \<Rightarrow> 'x world \<Rightarrow> (resolved \<times> bool) \<times> 'x world" where
  "resolveDeleteMutation mr w =
     (let res = \<lparr>data = [], err = None\<rparr> in
      case RewriteDelete (mutationRewriter mr) (mutation mr) w of
        ((query, mut, Some e), w1) \<Rightarrow>
          (case GQLWrapf (Some e) ''couldn't rewrite mutation'' w1 of
             (e', w2) \<Rightarrow> ((res\<lparr>err := e'\<rparr>, mutationFailed), w2))
      | ((query, mut, None), w1) \<Rightarrow>
          (case DeleteNodes (dgraph mr) query mut w1 of
             (Some e, w2) \<Rightarrow>
               (case GQLWrapf (Some e) (''mutation '' @ Name (mutation mr) @ '' failed'') w2 of
                  (e', w3) \<Rightarrow> ((res\<lparr>err := e'\<rparr>, mutationFailed), w3))
           | (None, w2) \<Rightarrow> ((res\<lparr>data := deletedMsg\<rparr>, mutationSucceeded), w2)))"

subsection \<open>Dispatch and the response-name prefix\<close>

text \<open>
  The loop over the error list: every object whose path is not empty gets the response
  name put in front of its path, in place. The new list holds the same pointers.
\<close>

fun prefixPaths :: "string \<Rightarrow> addr list \<Rightarrow> (addr \<Rightarrow> GqlError) \<Rightarrow> (addr \<Rightarrow> GqlError)" where
  "prefixPaths rn [] h = h"
| "prefixPaths rn (p # ps) h =
     prefixPaths rn ps
       (if length (Path (h p)) > 0
        then h(p := (h p)\<lparr>Path := PathField rn # Path (h p)\<rparr>)
        else h)"

text \<open>
  The part of \<^verbatim>\<open>resolve\<close> after the switch: the data is written behind the quoted
  response name, or \<^verbatim>\<open>null\<close> when there is none, and the errors are turned into a
  list with prefixed paths.
\<close>

definition addResponseName ::
  "string \<Rightarrow> (resolved \<times> bool) \<times> 'x world \<Rightarrow> (resolved \<times> bool) \<times> 'x world" where
  \<open>addResponseName rn r =
     (case r of ((res, succeeded), w) \<Rightarrow>
        (let b = ''"'' @ rn @ ''": '' @ (if length (data res) > 0 then data res else ''null'')
         in case AsGQLErrors (err res) w of
              (resErrs, w1) \<Rightarrow>
                ((res\<lparr>data := b, err := Some (GqlErrorListV resErrs)\<rparr>, succeeded),
                 w1\<lparr>heap := prefixPaths rn resErrs (heap w1)\<rparr>)))\<close>

definition resolve ::
  "('f, 'm, 'q, 'a, 'x) mutationResolver \<Rightarrow> 'x world \<Rightarrow> (resolved \<times> bool) \<times> 'x world" where
  "resolve mr w =
     (case MutationType (mutation mr) of
        AddMutation \<Rightarrow> addResponseName (ResponseName (mutation mr)) (resolveMutation mr w)
      | DeleteMutation \<Rightarrow>
          addResponseName (ResponseName (mutation mr)) (resolveDeleteMutation mr w)
      | UpdateMutation \<Rightarrow> addResponseName (ResponseName (mutation mr)) (resolveMutation mr w)
      | NotSupportedMutation \<Rightarrow>
          (case Errorf ''Only add, delete and update mutations are implemented'' w of
             (e, w1) \<Rightarrow> ((\<lparr>data = [], err = e\<rparr>, mutationFailed), w1)))"

text \<open>The error objects a result refers to, in order.\<close>

definition errorList :: "resolved \<Rightarrow> addr list" where
  "errorList res =
     (case err res of
        None \<Rightarrow> []
      | Some (GqlErrorPtr p) \<Rightarrow> [p]
      | Some (GqlErrorListV ps) \<Rightarrow> ps
      | Some (PlainError s) \<Rightarrow> [])"

subsection \<open>Reference notions for the statements\<close>

text \<open>
  The wrapping as the spec words it: the data behind the quoted response name, a colon
  and a space, and the literal \<^verbatim>\<open>null\<close> in place of empty data.
\<close>

definition wrapData :: "string \<Rightarrow> string \<Rightarrow> string" where
  \<open>wrapData rn d = ''"'' @ rn @ ''": '' @ (if d = [] then ''null'' else d)\<close>

text \<open>
  The store of error objects at the moment the prefixing loop of \<open>resolve\<close> starts:
  after the kind's pipeline and the conversion of its error to a list. An unsupported
  kind never reaches the loop; its store is the one \<open>resolve\<close> returns.
\<close>

definition storeBeforePrefix ::
  "('f, 'm, 'q, 'a, 'x) mutationResolver \<Rightarrow> 'x world \<Rightarrow> (addr \<Rightarrow> GqlError)" where
  "storeBeforePrefix mr w =
     (case MutationType (mutation mr) of
        AddMutation \<Rightarrow>
          heap (snd (AsGQLErrors (err (fst (fst (resolveMutation mr w)))) (snd (resolveMutation mr w))))
      | DeleteMutation \<Rightarrow>
          heap (snd (AsGQLErrors (err (fst (fst (resolveDeleteMutation mr w))))
                       (snd (resolveDeleteMutation mr w))))
      | UpdateMutation \<Rightarrow>
          heap (snd (AsGQLErrors (err (fst (fst (resolveMutation mr w)))) (snd (resolveMutation mr w))))
      | NotSupportedMutation \<Rightarrow> heap (snd (resolve mr w)))"

section \<open>Change-data capture over Kafka (package edgraph)\<close>

text \<open>
  The errors of the Kafka client, of the serialiser and of the storage engine are Go
  errors of which only the text matters here.
\<close>

type_synonym goError = string

text \<open>
  The process log. An entry keeps the severity, the format string and the arguments of
  the call, unformatted. \<^verbatim>\<open>glog.V(n).Infof\<close> writes only when the verbosity of the
  process is at least \<open>n\<close>.
\<close>

datatype severity = ERROR | INFO

datatype 'kv logArg = ErrArg goError | StrArg string | NatArg nat | ListArg "'kv list"

datatype 'kv logEntry = LogEntry severity string "'kv logArg list"

definition glogErrorf :: "string \<Rightarrow> 'kv logArg list \<Rightarrow> 'kv logEntry list \<Rightarrow> 'kv logEntry list" where
  "glogErrorf format args lg = lg @ [LogEntry ERROR format args]"

definition glogInfof :: "string \<Rightarrow> 'kv logArg list \<Rightarrow> 'kv logEntry list \<Rightarrow> 'kv logEntry list" where
  "glogInfof format args lg = lg @ [LogEntry INFO format args]"

definition glogVInfof ::
  "nat \<Rightarrow> nat \<Rightarrow> string \<Rightarrow> 'kv logArg list \<Rightarrow> 'kv logEntry list \<Rightarrow> 'kv logEntry list" where
  "glogVInfof verbosity level format args lg =
     (if level \<le> verbosity then lg @ [LogEntry INFO format args] else lg)"

text \<open>
  The \<^verbatim>\<open>ready\<close> channel is unbuffered and nothing is ever sent on it, so its state is
  nil, open or closed. Go's \<^verbatim>\<open>close\<close> panics on a nil channel and on a channel that is
  closed already; a panic is the \<open>Inl\<close> of a result.
\<close>

datatype chanState = ChanNil | ChanOpen | ChanClosed

definition closeChan :: "chanState \<Rightarrow> string + chanState" where
  "closeChan c =
     (case c of
        ChanNil \<Rightarrow> Inl ''close of nil channel''
      | ChanOpen \<Rightarrow> Inr ChanClosed
      | ChanClosed \<Rightarrow> Inl ''close of closed channel'')"

record Consumer =
  ready :: chanState

text \<open>
  The fields of the Kafka client's consumer and producer messages and of its
  configuration that the code touches.
\<close>

record ConsumerMessage =
  cmValue :: string
  cmTimestamp :: nat
  cmTopic :: string
  cmPartition :: nat
  cmOffset :: nat

record ProducerMessage =
  pmTopic :: string
  pmValue :: string

record SaramaConfig =
  Version :: "nat list"
  ProducerReturnSuccesses :: bool

text \<open>
  What the code takes from outside, as parameters: the settings and the package
  constants \<^verbatim>\<open>kafkaTopic\<close> and \<^verbatim>\<open>kafkaGroup\<close> (declared in a file that is not among
  the sources), the serialiser of a key-value list, the bulk loader of the storage
  engine, and the Kafka client library. \<open>'kv\<close> is a key-value record, \<open>'s\<close> the
  state of local storage, \<open>'l\<close> a loader handle, \<open>'k\<close> the state of the broker,
  \<open>'c\<close> a consumer-group client and \<open>'p\<close> a producer.

  The loader's \<open>Set\<close> and \<open>Finish\<close> return the storage engine's error value; the code
  calls both as statements, so whatever they return is dropped. The last argument of
  the two constructors is the number of the call: the broker may answer each attempt
  differently.
\<close>

record ('kv, 's, 'l, 'k, 'c, 'p) kafkaEnv =
  verbosity :: nat
  kafkaTopic :: string
  kafkaGroup :: string
  SourceBrokers :: string
  TargetBrokers :: string
  Unmarshal :: "string \<Rightarrow> goError + 'kv list"
  Marshal :: "'kv list \<Rightarrow> goError + string"
  NewLoader :: "nat \<Rightarrow> 's \<Rightarrow> 'l \<times> 's"
  loaderSet :: "'l \<Rightarrow> 'kv \<Rightarrow> 's \<Rightarrow> goError option \<times> 's"
  loaderFinish :: "'l \<Rightarrow> 's \<Rightarrow> goError option \<times> 's"
  NewConfig :: SaramaConfig
  NewConsumerGroup :: "string list \<Rightarrow> string \<Rightarrow> SaramaConfig \<Rightarrow> nat \<Rightarrow> goError + 'c"
  NewSyncProducer :: "string list \<Rightarrow> SaramaConfig \<Rightarrow> nat \<Rightarrow> goError + 'p"
  SendMessage :: "'p \<Rightarrow> ProducerMessage \<Rightarrow> 'k \<Rightarrow> (nat \<times> nat \<times> goError option) \<times> 'k"

text \<open>
  The state the functions act on: local storage (\<^verbatim>\<open>State.Pstore\<close>), the broker, the
  messages marked as consumed on the session (with the metadata string), the log, and
  the seconds spent in \<^verbatim>\<open>time.Sleep\<close>.
\<close>

record ('kv, 's, 'k) procState =
  Pstore :: 's
  broker :: 'k
  marked :: "(ConsumerMessage \<times> string) list"
  glog :: "'kv logEntry list"
  slept :: nat

text \<open>
  \<^verbatim>\<open>Setup\<close> closes the \<^verbatim>\<open>ready\<close> channel and returns nil; \<^verbatim>\<open>Cleanup\<close> returns nil.
\<close>

definition Setup :: "Consumer \<Rightarrow> string + (goError option \<times> Consumer)" where
  "Setup consumer =
     (case closeChan (ready consumer) of
        Inl p \<Rightarrow> Inl p
      | Inr ch \<Rightarrow> Inr (None, consumer\<lparr>ready := ch\<rparr>))"

definition Cleanup :: "Consumer \<Rightarrow> goError option \<times> Consumer" where
  "Cleanup consumer = (None, consumer)"

text \<open>
  The inner loop of \<^verbatim>\<open>ConsumeClaim\<close>: \<^verbatim>\<open>loader.Set(kv)\<close> for each record of the list,
  result dropped.
\<close>

fun feedLoader ::
  "('kv, 's, 'l, 'k, 'c, 'p) kafkaEnv \<Rightarrow> 'l \<Rightarrow> 'kv list \<Rightarrow> 's \<Rightarrow> 's" where
  "feedLoader E loader [] s = s"
| "feedLoader E loader (kv # kvs) s = feedLoader E loader kvs (snd (loaderSet E loader kv s))"

text \<open>
  \<^verbatim>\<open>ConsumeClaim\<close> ranges over the messages of the claim; the list is what the channel
  delivers before it is closed. A message that does not deserialise ends the loop with
  the error. Otherwise a new loader is opened with 16, fed, finished, the message is
  logged at verbosity 1 and marked with empty metadata.
\<close>

fun ConsumeClaim ::
  "('kv, 's, 'l, 'k, 'c, 'p) kafkaEnv \<Rightarrow> ConsumerMessage list \<Rightarrow> ('kv, 's, 'k) procState
     \<Rightarrow> goError option \<times> ('kv, 's, 'k) procState" where
  "ConsumeClaim E [] st = (None, st)"
| "ConsumeClaim E (message # rest) st =
     (case Unmarshal E (cmValue message) of
        Inl e \<Rightarrow>
          (Some e,
           st\<lparr>glog := glogErrorf ''error while unmarshaling from consumed message: %v''
                        [ErrArg e] (glog st)\<rparr>)
      | Inr list \<Rightarrow>
          (case NewLoader E 16 (Pstore st) of
             (loader, s1) \<Rightarrow>
               (let s2 = feedLoader E loader list s1;
                    s3 = snd (loaderFinish E loader s2);
                    lg = glogVInfof (verbosity E) 1
                           ''Message stored: value = %+v, timestamp = %v, topic = %s''
                           [ListArg list, NatArg (cmTimestamp message), StrArg (cmTopic message)]
                           (glog st)
                in ConsumeClaim E rest
                     (st\<lparr>Pstore := s3, glog := lg, marked := marked st @ [(message, [])]\<rparr>))))"

text \<open>
  \<^verbatim>\<open>strings.Split\<close> for a one-character separator: \<open>n\<close> separators give \<open>n + 1\<close>
  fields, some of them possibly empty.
\<close>

fun Split :: "string \<Rightarrow> char \<Rightarrow> string list" where
  "Split [] sep = [[]]"
| "Split (c # cs) sep =
     (if c = sep then [] # Split cs sep
      else (case Split cs sep of
              [] \<Rightarrow> [[c]]
            | part # parts \<Rightarrow> (c # part) # parts))"

text \<open>
  The retry loop that both setup functions run, with their own constructor and their
  own log text: \<^verbatim>\<open>for i := 0; i < 10; i++\<close>, leave on success, otherwise log the error
  and sleep five seconds. \<open>r\<close> holds the variables \<^verbatim>\<open>client, err\<close> (or
  \<^verbatim>\<open>producer, err\<close>), assigned by each call.
\<close>

function connectLoop ::
  "(nat \<Rightarrow> goError + 'c) \<Rightarrow> string \<Rightarrow> nat \<Rightarrow> 'c option \<times> goError option
     \<Rightarrow> ('kv, 's, 'k) procState \<Rightarrow> ('c option \<times> goError option) \<times> ('kv, 's, 'k) procState" where
  "connectLoop construct format i r st =
     (if i < 10 then
        (case construct i of
           Inr c \<Rightarrow> ((Some c, None), st)
         | Inl e \<Rightarrow>
             connectLoop construct format (i + 1) (None, Some e)
               (st\<lparr>glog := glogErrorf format [ErrArg e] (glog st), slept := slept st + 5\<rparr>))
      else (r, st))"
  by pat_completeness auto
termination
  by (relation "measure (\<lambda>(construct, format, i, r, st). 10 - i)") auto

declare connectLoop.simps [simp del]

text \<open>
  How the setup functions end. \<^verbatim>\<open>setupKafkaSource\<close> does nothing without brokers,
  panics with the last error, or starts the goroutine that drives the consumer with the
  client and the consumer it made, and then waits on \<^verbatim>\<open>ready\<close>. \<^verbatim>\<open>setupKafkaTarget\<close>
  does nothing without brokers, gives up after logging, or starts the goroutine that
  subscribes the callback, which holds the producer. What the goroutines do later is
  not part of the functions' own run; the wait on \<^verbatim>\<open>ready\<close> and the line logged after
  it depend on the goroutine and are left out.
\<close>

datatype ('c) sourceResult = SourceOff | SourcePanic goError | SourceConsuming "'c option" Consumer

datatype ('p) targetResult = TargetOff | TargetGaveUp | TargetSubscribed "'p option"

definition setupKafkaSource ::
  "('kv, 's, 'l, 'k, 'c, 'p) kafkaEnv \<Rightarrow> ('kv, 's, 'k) procState
     \<Rightarrow> 'c sourceResult \<times> ('kv, 's, 'k) procState" where
  "setupKafkaSource E st =
     (let sourceBrokers = SourceBrokers E;
          st1 = st\<lparr>glog := glogInfof ''source kafka brokers: %v'' [StrArg sourceBrokers] (glog st)\<rparr>
      in if length sourceBrokers > 0 then
           (let config = (NewConfig E)\<lparr>Version := [2, 2, 0, 0]\<rparr>;
                consumer = \<lparr>ready = ChanOpen\<rparr>
            in case connectLoop
                      (NewConsumerGroup E (Split sourceBrokers (CHR '','')) (kafkaGroup E) config)
                      ''unable to create the kafka consumer, will retry in 5 seconds: %v''
                      0 (None, None) st1 of
                 ((client, Some e), st2) \<Rightarrow> (SourcePanic e, st2)
               | ((client, None), st2) \<Rightarrow> (SourceConsuming client consumer, st2))
         else (SourceOff, st1))"

text \<open>
  The callback that \<^verbatim>\<open>setupKafkaTarget\<close> hands to \<^verbatim>\<open>Subscribe\<close>, called with each list
  of key-value records. The error of \<^verbatim>\<open>SendMessage\<close> is assigned to \<^verbatim>\<open>err\<close> and not
  read again.
\<close>

definition cb ::
  "('kv, 's, 'l, 'k, 'c, 'p) kafkaEnv \<Rightarrow> 'p \<Rightarrow> 'kv list \<Rightarrow> ('kv, 's, 'k) procState
     \<Rightarrow> ('kv, 's, 'k) procState" where
  "cb E producer list st =
     (case Marshal E list of
        Inl e \<Rightarrow> st\<lparr>glog := glogErrorf ''unable to marshal the kv list: %+v'' [ErrArg e] (glog st)\<rparr>
      | Inr listBytes \<Rightarrow>
          (case SendMessage E producer \<lparr>pmTopic = kafkaTopic E, pmValue = listBytes\<rparr> (broker st) of
             ((part_no, off, e), k) \<Rightarrow>
               st\<lparr>broker := k,
                  glog := glogVInfof (verbosity E) 1 ''produced a list with %d messages to kafka''
                            [NatArg (length list)] (glog st)\<rparr>))"

definition setupKafkaTarget ::
  "('kv, 's, 'l, 'k, 'c, 'p) kafkaEnv \<Rightarrow> ('kv, 's, 'k) procState
     \<Rightarrow> 'p targetResult \<times> ('kv, 's, 'k) procState" where
  "setupKafkaTarget E st =
     (let targetBrokers = TargetBrokers E;
          st1 = st\<lparr>glog := glogInfof ''target kafka brokers: %v'' [StrArg targetBrokers] (glog st)\<rparr>
      in if length targetBrokers > 0 then
           (let conf = (NewConfig E)\<lparr>ProducerReturnSuccesses := True\<rparr>
            in case connectLoop
                      (NewSyncProducer E (Split targetBrokers (CHR '','')) conf)
                      ''unable to create the kafka sync producer, will retry in 5 seconds: %v''
                      0 (None, None) st1 of
                 ((producer, Some e), st2) \<Rightarrow>
                   (TargetGaveUp,
                    st2\<lparr>glog := glogErrorf
                           ''unable to create the kafka sync producer, and will not publish updates''
                           [] (glog st2)\<rparr>)
               | ((producer, None), st2) \<Rightarrow>
                   (TargetSubscribed producer,
                    st2\<lparr>glog := glogVInfof (verbosity E) 1 ''subscribed to the pstore for updates''
                           [] (glog st2)\<rparr>))
         else (TargetOff, st1))"

text \<open>
  The Kafka client's \<^verbatim>\<open>Consume\<close> runs one group session on the handler it is given. As
  the comments on the handler's methods say, \<^verbatim>\<open>Setup\<close> is run at the beginning of a
  new session and \<^verbatim>\<open>Cleanup\<close> at its end; a session whose \<^verbatim>\<open>Setup\<close> returns an error
  ends there. The claims in between do not touch the consumer. The goroutine of
  \<^verbatim>\<open>setupKafkaSource\<close> calls \<^verbatim>\<open>Consume\<close> in a loop without exit, always on the same
  consumer; \<open>driverLoop n\<close> is its first \<open>n\<close> rounds.
\<close>

definition Consume :: "Consumer \<Rightarrow> string + (goError option \<times> Consumer)" where
  "Consume consumer =
     (case Setup consumer of
        Inl p \<Rightarrow> Inl p
      | Inr (Some e, consumer1) \<Rightarrow> Inr (Some e, consumer1)
      | Inr (None, consumer1) \<Rightarrow> Inr (Cleanup consumer1))"

fun driverLoop :: "nat \<Rightarrow> Consumer \<Rightarrow> string + Consumer" where
  "driverLoop 0 consumer = Inr consumer"
| "driverLoop (Suc n) consumer =
     (case Consume consumer of
        Inl p \<Rightarrow> Inl p
      | Inr (e, consumer1) \<Rightarrow> driverLoop n consumer1)"

text \<open>
  The constructor calls as the two setup functions make them: the \<open>i\<close>-th attempt.
\<close>

definition consumerGroupAttempt :: "('kv, 's, 'l, 'k, 'c, 'p) kafkaEnv \<Rightarrow> nat \<Rightarrow> goError + 'c" where
  "consumerGroupAttempt E i =
     NewConsumerGroup E (Split (SourceBrokers E) (CHR '','')) (kafkaGroup E)
       ((NewConfig E)\<lparr>Version := [2, 2, 0, 0]\<rparr>) i"

definition syncProducerAttempt :: "('kv, 's, 'l, 'k, 'c, 'p) kafkaEnv \<Rightarrow> nat \<Rightarrow> goError + 'p" where
  "syncProducerAttempt E i =
     NewSyncProducer E (Split (TargetBrokers E) (CHR '',''))
       ((NewConfig E)\<lparr>ProducerReturnSuccesses := True\<rparr>) i"



subsection \<open>A reference store\<close>

text \<open>
  Modelled from the spec: the bulk loader of local storage, which is outside the
  sources. The spec says the loader is fed records in sequence and that their
  application to storage follows the batch's own order: \<open>Set\<close> queues the record and
  \<open>Finish\<close> writes the queued records in the order they came. \<open>failingFinish\<close> is a
  loader whose \<open>Finish\<close> reports an error and writes nothing.
\<close>

record ('key, 'val) kvStore =
  committed :: "'key \<Rightarrow> 'val option"
  pending :: "('key \<times> 'val) list"

definition orderedNewLoader :: "nat \<Rightarrow> ('key, 'val) kvStore \<Rightarrow> unit \<times> ('key, 'val) kvStore" where
  "orderedNewLoader n s = ((), s\<lparr>pending := []\<rparr>)"

definition orderedSet ::
  "unit \<Rightarrow> 'key \<times> 'val \<Rightarrow> ('key, 'val) kvStore \<Rightarrow> goError option \<times> ('key, 'val) kvStore" where
  "orderedSet l kv s = (None, s\<lparr>pending := pending s @ [kv]\<rparr>)"

definition orderedFinish ::
  "unit \<Rightarrow> ('key, 'val) kvStore \<Rightarrow> goError option \<times> ('key, 'val) kvStore" where
  "orderedFinish l s =
     (None, \<lparr>committed = fold (\<lambda>(k, v) m. m(k \<mapsto> v)) (pending s) (committed s), pending = []\<rparr>)"

definition failingFinish ::
  "unit \<Rightarrow> ('key, 'val) kvStore \<Rightarrow> goError option \<times> ('key, 'val) kvStore" where
  "failingFinish l s = (Some ''no space left on device'', s\<lparr>pending := []\<rparr>)"

section \<open>Test doubles\<close>

text \<open>
  Collaborators for concrete runs of the resolver. The backend records the calls it
  receives in the world. \<open>failAt\<close> picks the step that fails: 1 the rewrite, 2 the
  backend write, 3 the follow-up query's construction, 4 its execution; any other value
  lets every step succeed. The completion always reports an error list in which the
  first object, which has a path, occurs twice, and the second has no path.
\<close>

definition emptyHeap :: "addr \<Rightarrow> GqlError" where
  "emptyHeap = (\<lambda>p. \<lparr>Message = [], Locations = [], Path = []\<rparr>)"

definition world0 :: "string list world" where
  "world0 = \<lparr>heap = emptyHeap, next_addr = 0, ext = []\<rparr>"

definition logCall :: "string \<Rightarrow> string list world \<Rightarrow> string list world" where
  "logCall c w = w\<lparr>ext := ext w @ [c]\<rparr>"

definition fakeComplete :: "string \<Rightarrow> string \<Rightarrow> string list world \<Rightarrow> (string \<times> error option) \<times> string list world" where
  "fakeComplete f resp w =
     (case alloc \<lparr>Message = ''missing field'', Locations = [],
                  Path = [PathField f, PathIndex 0]\<rparr> w of
        (p1, w1) \<Rightarrow>
          (case alloc \<lparr>Message = ''partial result'', Locations = [], Path = []\<rparr> w1 of
             (p2, w2) \<Rightarrow> ((resp, Some (GqlErrorListV [p1, p2, p1])), w2)))"

definition fakeResolver ::
  "MutationType \<Rightarrow> nat \<Rightarrow> (string, string, string, nat, string list) mutationResolver" where
  "fakeResolver kind failAt =
     \<lparr>mutation =
        \<lparr>MutationType = kind, ResponseName = ''addUser'', Name = ''addUser'',
         Alias = ''addUser'', MutationLocation = \<lparr>Line = 2, Column = 3\<rparr>,
         QueryField = ''user''\<rparr>,
      mutationRewriter =
        \<lparr>Rewrite = (\<lambda>m w.
           if failAt = 1 then (([], Some (PlainError ''bad input'')), w)
           else ((''set'', None), w)),
         RewriteDelete = (\<lambda>m w.
           if failAt = 1 then (([], [], Some (PlainError ''bad filter'')), w)
           else ((''find'', ''delete'', None), w))\<rparr>,
      queryRewriter =
        \<lparr>FromMutationResult = (\<lambda>m assigned w.
           if failAt = 3 then (([], Some (PlainError ''no uid'')), w)
           else ((''get'', None), w))\<rparr>,
      dgraph =
        \<lparr>Mutate = (\<lambda>mut w.
           if failAt = 2 then ((0, Some (PlainError ''aborted'')), logCall ''Mutate'' w)
           else ((7, None), logCall ''Mutate'' w)),
         Query = (\<lambda>q w.
           if failAt = 4 then (([], Some (PlainError ''timeout'')), logCall ''Query'' w)
           else ((''{}'', None), logCall ''Query'' w)),
         DeleteNodes = (\<lambda>q mut w.
           if failAt = 2 then (Some (PlainError ''aborted''), logCall ''DeleteNodes'' w)
           else (None, logCall ''DeleteNodes'' w))\<rparr>,
      completeDgraphResult = fakeComplete\<rparr>"

text \<open>
  A toy wire format for key-value lists (one character per key and per value), and an
  environment for the replication functions: the loader's \<open>Finish\<close> and the producer's
  \<open>SendMessage\<close> can be made to fail, and the broker refuses the first \<open>upAt\<close>
  constructor calls.
\<close>

fun toyUnmarshal :: "string \<Rightarrow> goError + (string \<times> string) list" where
  "toyUnmarshal [] = Inr []"
| "toyUnmarshal [k] = Inl ''unexpected EOF''"
| "toyUnmarshal (k # v # rest) =
     (case toyUnmarshal rest of Inl e \<Rightarrow> Inl e | Inr kvs \<Rightarrow> Inr (([k], [v]) # kvs))"

fun toyMarshal :: "(string \<times> string) list \<Rightarrow> goError + string" where
  "toyMarshal [] = Inr []"
| "toyMarshal (([k], [v]) # rest) =
     (case toyMarshal rest of Inl e \<Rightarrow> Inl e | Inr bytes \<Rightarrow> Inr (k # v # bytes))"
| "toyMarshal (kv # rest) = Inl ''field too long''"

definition testEnv ::
  "bool \<Rightarrow> bool \<Rightarrow> nat
     \<Rightarrow> (string \<times> string, (string, string) kvStore, unit, ProducerMessage list, nat, nat) kafkaEnv" where
  "testEnv diskFull sendFails upAt =
     \<lparr>verbosity = 1,
      kafkaTopic = ''dgraph'',
      kafkaGroup = ''dgraph'',
      SourceBrokers = ''k1:9092,k2:9092'',
      TargetBrokers = ''k3:9092'',
      Unmarshal = toyUnmarshal,
      Marshal = toyMarshal,
      NewLoader = orderedNewLoader,
      loaderSet = orderedSet,
      loaderFinish = (if diskFull then failingFinish else orderedFinish),
      NewConfig = \<lparr>Version = [1, 0, 0, 0], ProducerReturnSuccesses = False\<rparr>,
      NewConsumerGroup = (\<lambda>brokers group config i.
        if i < upAt then Inl ''connection refused'' else Inr i),
      NewSyncProducer = (\<lambda>brokers config i.
        if i < upAt then Inl ''connection refused'' else Inr i),
      SendMessage = (\<lambda>producer msg published.
        if sendFails then ((0, 0, Some ''request timed out''), published)
        else ((0, length published, None), published @ [msg]))\<rparr>"

definition state0 :: "(string \<times> string, (string, string) kvStore, ProducerMessage list) procState" where
  "state0 = \<lparr>Pstore = \<lparr>committed = Map.empty, pending = []\<rparr>, broker = [], marked = [],
             glog = [], slept = 0\<rparr>"

definition message1 :: ConsumerMessage where
  "message1 = \<lparr>cmValue = ''a1b2a3'', cmTimestamp = 100, cmTopic = ''dgraph'',
               cmPartition = 0, cmOffset = 41\<rparr>"




section \<open>Properties of the mutation resolver\<close>

lemma addResponseName_data:
  "data (fst (fst (addResponseName rn r))) = wrapData rn (data (fst (fst r)))"
  by (cases r) (auto simp: addResponseName_def wrapData_def Let_def split: prod.splits)

lemma addResponseName_succeeded:
  "snd (fst (addResponseName rn r)) = snd (fst r)"
  by (cases r) (auto simp: addResponseName_def Let_def split: prod.splits)

lemma addResponseName_errorList:
  "errorList (fst (fst (addResponseName rn r))) = fst (AsGQLErrors (err (fst (fst r))) (snd r))"
  by (cases r) (auto simp: addResponseName_def Let_def errorList_def split: prod.splits)

lemma addResponseName_heap:
  "heap (snd (addResponseName rn r)) =
     prefixPaths rn (fst (AsGQLErrors (err (fst (fst r))) (snd r)))
       (heap (snd (AsGQLErrors (err (fst (fst r))) (snd r))))"
  by (cases r) (auto simp: addResponseName_def Let_def split: prod.splits)

lemma prefixPaths_Path:
  "Path (prefixPaths rn ps h p) =
     (if Path (h p) = [] then [] else replicate (count_list ps p) (PathField rn) @ Path (h p))"
proof (induction ps arbitrary: h)
  case Nil
  then show ?case by simp
next
  case (Cons q ps)
  then show ?case by (auto simp: replicate_app_Cons_same)
qed

lemma prefixPaths_hd:
  assumes "p \<in> set ps" and "Path (prefixPaths rn ps h p) \<noteq> []"
  shows "hd (Path (prefixPaths rn ps h p)) = PathField rn"
proof -
  from assms(1) have "count_list ps p \<noteq> 0" by (simp add: count_list_0_iff)
  then obtain k where "count_list ps p = Suc k" by (cases "count_list ps p") auto
  with assms(2) show ?thesis by (simp add: prefixPaths_Path split: if_splits)
qed

text \<open>
  Claim C1, as amended. For an add, update or delete mutation the data that
  \<open>resolve\<close> returns is the data of the kind's pipeline wrapped exactly once as
  \<^verbatim>\<open>"<responseName>": <fragment>\<close>, with the literal \<^verbatim>\<open>null\<close> when the pipeline left
  the data empty. For an unsupported kind \<open>resolve\<close> returns from the switch's default
  branch, before the wrapping code: the data is empty and carries no response name.
\<close>

theorem resolve_data_wrapped_by_kind:
  "data (fst (fst (resolve mr w))) =
     (case MutationType (mutation mr) of
        AddMutation \<Rightarrow>
          wrapData (ResponseName (mutation mr)) (data (fst (fst (resolveMutation mr w))))
      | DeleteMutation \<Rightarrow>
          wrapData (ResponseName (mutation mr)) (data (fst (fst (resolveDeleteMutation mr w))))
      | UpdateMutation \<Rightarrow>
          wrapData (ResponseName (mutation mr)) (data (fst (fst (resolveMutation mr w))))
      | NotSupportedMutation \<Rightarrow> [])"
  by (simp add: resolve_def addResponseName_data Errorf_def split: MutationType.split prod.split)

text \<open>
  Claim C1 as stated fails for an unsupported kind: the returned data is empty, not
  \<^verbatim>\<open>"addUser": null\<close>.
\<close>

theorem unsupported_kind_data_not_wrapped:
  "data (fst (fst (resolve (fakeResolver NotSupportedMutation 0) world0))) = [] \<and>
   data (fst (fst (resolve (fakeResolver NotSupportedMutation 0) world0)))
     \<noteq> wrapData (ResponseName (mutation (fakeResolver NotSupportedMutation 0))) []"
  by (simp add: resolve_def fakeResolver_def Errorf_def alloc_def wrapData_def
        split: prod.split)

lemma resolveMutation_rewrite_fails:
  assumes "Rewrite (mutationRewriter mr) (mutation mr) w = ((mut, Some e), w1)"
  shows "snd (fst (resolveMutation mr w)) = False"
    and "data (fst (fst (resolveMutation mr w))) = []"
  using assms
  by (simp_all add: resolveMutation_def mutationFailed_def split: prod.split)

lemma resolveMutation_mutate_fails:
  assumes "Rewrite (mutationRewriter mr) (mutation mr) w = ((mut, None), w1)"
    and "Mutate (dgraph mr) mut w1 = ((assigned, Some e), w2)"
  shows "snd (fst (resolveMutation mr w)) = False"
    and "data (fst (fst (resolveMutation mr w))) = []"
  using assms
  by (simp_all add: resolveMutation_def mutationFailed_def split: prod.split)

lemma resolve_add_update:
  assumes "MutationType (mutation mr) = AddMutation \<or> MutationType (mutation mr) = UpdateMutation"
  shows "resolve mr w = addResponseName (ResponseName (mutation mr)) (resolveMutation mr w)"
  using assms by (auto simp: resolve_def)

text \<open>
  Claim C2. For an add or update mutation, if the rewrite fails, or the rewrite succeeds
  and the backend's \<open>Mutate\<close> fails, then \<open>resolve\<close> returns \<open>succeeded = False\<close>, the
  pipeline's data is empty, and the returned data is \<^verbatim>\<open>"<responseName>": null\<close>.
\<close>

theorem resolve_fatal_failure_null_data:
  assumes kind:
    "MutationType (mutation mr) = AddMutation \<or> MutationType (mutation mr) = UpdateMutation"
  assumes fails:
    "(\<exists>mut e w1. Rewrite (mutationRewriter mr) (mutation mr) w = ((mut, Some e), w1)) \<or>
     (\<exists>mut w1 assigned e w2.
        Rewrite (mutationRewriter mr) (mutation mr) w = ((mut, None), w1) \<and>
        Mutate (dgraph mr) mut w1 = ((assigned, Some e), w2))"
  shows "snd (fst (resolve mr w)) = False \<and>
         data (fst (fst (resolveMutation mr w))) = [] \<and>
         data (fst (fst (resolve mr w))) = ''\"'' @ ResponseName (mutation mr) @ ''\": null''"
proof -
  from fails have inner:
    "snd (fst (resolveMutation mr w)) = False \<and> data (fst (fst (resolveMutation mr w))) = []"
  proof (elim disjE exE conjE)
    fix mut e w1
    assume "Rewrite (mutationRewriter mr) (mutation mr) w = ((mut, Some e), w1)"
    then show ?thesis by (simp add: resolveMutation_rewrite_fails)
  next
    fix mut w1 assigned e w2
    assume "Rewrite (mutationRewriter mr) (mutation mr) w = ((mut, None), w1)"
      and "Mutate (dgraph mr) mut w1 = ((assigned, Some e), w2)"
    then show ?thesis by (simp add: resolveMutation_mutate_fails)
  qed
  then show ?thesis
    by (simp add: resolve_add_update [OF kind] addResponseName_data
          addResponseName_succeeded wrapData_def)
qed

lemma GQLWrapf_Some:
  "GQLWrapf (Some e) c w = (e', w') \<Longrightarrow> \<exists>p. e' = Some (GqlErrorPtr p)"
  by (auto simp: GQLWrapf_def alloc_def Let_def split: error.splits)

lemma resolveMutation_followup_fails:
  assumes "Rewrite (mutationRewriter mr) (mutation mr) w = ((mut, None), w1)"
    and "Mutate (dgraph mr) mut w1 = ((assigned, None), w2)"
    and "FromMutationResult (queryRewriter mr) (mutation mr) assigned w2 = ((q, Some e), w3)"
  shows "snd (fst (resolveMutation mr w)) = True"
    and "\<exists>p. err (fst (fst (resolveMutation mr w))) = Some (GqlErrorPtr p)"
  using assms
  by (auto simp: resolveMutation_def mutationSucceeded_def split: prod.split dest: GQLWrapf_Some)

lemma resolveMutation_query_fails:
  assumes "Rewrite (mutationRewriter mr) (mutation mr) w = ((mut, None), w1)"
    and "Mutate (dgraph mr) mut w1 = ((assigned, None), w2)"
    and "FromMutationResult (queryRewriter mr) (mutation mr) assigned w2 = ((q, None), w3)"
    and "Query (dgraph mr) q w3 = ((resp, Some e), w4)"
  shows "snd (fst (resolveMutation mr w)) = True"
    and "\<exists>p. err (fst (fst (resolveMutation mr w))) = Some (GqlErrorPtr p)"
  using assms
  by (auto simp: resolveMutation_def mutationSucceeded_def split: prod.split dest: GQLWrapf_Some)

text \<open>
  Claim C3. For an add or update mutation whose rewrite and backend \<open>Mutate\<close> succeed,
  if building the follow-up query (\<open>FromMutationResult\<close>) fails, or it is built and
  executing it (\<open>Query\<close>) fails, then \<open>resolve\<close> returns \<open>succeeded = True\<close> and a
  non-empty error list.
\<close>

theorem resolve_followup_failure_succeeded_with_errors:
  assumes kind:
    "MutationType (mutation mr) = AddMutation \<or> MutationType (mutation mr) = UpdateMutation"
  assumes rewrite: "Rewrite (mutationRewriter mr) (mutation mr) w = ((mut, None), w1)"
  assumes mutate: "Mutate (dgraph mr) mut w1 = ((assigned, None), w2)"
  assumes fails:
    "(\<exists>q e w3. FromMutationResult (queryRewriter mr) (mutation mr) assigned w2
                  = ((q, Some e), w3)) \<or>
     (\<exists>q w3 resp e w4.
        FromMutationResult (queryRewriter mr) (mutation mr) assigned w2 = ((q, None), w3) \<and>
        Query (dgraph mr) q w3 = ((resp, Some e), w4))"
  shows "snd (fst (resolve mr w)) = True \<and> errorList (fst (fst (resolve mr w))) \<noteq> []"
proof -
  from fails have inner:
    "snd (fst (resolveMutation mr w)) = True \<and>
     (\<exists>p. err (fst (fst (resolveMutation mr w))) = Some (GqlErrorPtr p))"
  proof (elim disjE exE conjE)
    fix q e w3
    assume "FromMutationResult (queryRewriter mr) (mutation mr) assigned w2 = ((q, Some e), w3)"
    with rewrite mutate show ?thesis
      using resolveMutation_followup_fails [of mr w mut w1 assigned w2 q e w3] by simp
  next
    fix q w3 resp e w4
    assume "FromMutationResult (queryRewriter mr) (mutation mr) assigned w2 = ((q, None), w3)"
      and "Query (dgraph mr) q w3 = ((resp, Some e), w4)"
    with rewrite mutate show ?thesis
      using resolveMutation_query_fails [of mr w mut w1 assigned w2 q w3 resp e w4] by simp
  qed
  then obtain p where p: "err (fst (fst (resolveMutation mr w))) = Some (GqlErrorPtr p)"
    by blast
  from inner p show ?thesis
    by (simp add: resolve_add_update [OF kind] addResponseName_succeeded
          addResponseName_errorList AsGQLErrors_def)
qed

text \<open>
  Claim C5. When the rewrite and \<open>DeleteNodes\<close> of a delete mutation both succeed,
  \<open>resolve\<close> returns \<open>succeeded = True\<close>, the pipeline's data is exactly
  \<^verbatim>\<open>{ "msg": "Deleted" }\<close>, returned wrapped under the response name, the error list is
  empty, and the world is the one \<open>DeleteNodes\<close> left: no follow-up query, rewriter or
  completion ran after it, whatever they would have done.
\<close>

theorem resolve_delete_success:
  assumes kind: "MutationType (mutation mr) = DeleteMutation"
  assumes rewrite:
    "RewriteDelete (mutationRewriter mr) (mutation mr) w = ((query, mut, None), w1)"
  assumes deleted: "DeleteNodes (dgraph mr) query mut w1 = (None, w2)"
  shows "snd (fst (resolve mr w)) = True \<and>
         data (fst (fst (resolveDeleteMutation mr w))) = ''{ \"msg\": \"Deleted\" }'' \<and>
         data (fst (fst (resolve mr w)))
           = ''\"'' @ ResponseName (mutation mr) @ ''\": { \"msg\": \"Deleted\" }'' \<and>
         errorList (fst (fst (resolve mr w))) = [] \<and>
         snd (resolve mr w) = w2"
proof -
  from rewrite deleted have inner:
    "resolveDeleteMutation mr w = ((\<lparr>data = deletedMsg, err = None\<rparr>, True), w2)"
    by (simp add: resolveDeleteMutation_def mutationSucceeded_def)
  from kind have "resolve mr w
      = addResponseName (ResponseName (mutation mr)) (resolveDeleteMutation mr w)"
    by (simp add: resolve_def)
  with inner show ?thesis
    by (simp add: addResponseName_def AsGQLErrors_def errorList_def deletedMsg_def)
qed

lemma prefixPaths_keeps_empty:
  "Path (h p) = [] \<Longrightarrow> Path (prefixPaths rn ps h p) = []"
  by (simp add: prefixPaths_Path)

lemma addResponseName_paths:
  assumes "p \<in> set (errorList (fst (fst (addResponseName rn r))))"
  shows "Path (heap (snd (addResponseName rn r)) p) \<noteq> [] \<longrightarrow>
           hd (Path (heap (snd (addResponseName rn r)) p)) = PathField rn"
    and "Path (heap (snd (AsGQLErrors (err (fst (fst r))) (snd r))) p) = [] \<longrightarrow>
           Path (heap (snd (addResponseName rn r)) p) = []"
proof -
  from assms have "p \<in> set (fst (AsGQLErrors (err (fst (fst r))) (snd r)))"
    by (simp add: addResponseName_errorList)
  then show "Path (heap (snd (addResponseName rn r)) p) \<noteq> [] \<longrightarrow>
           hd (Path (heap (snd (addResponseName rn r)) p)) = PathField rn"
    unfolding addResponseName_heap by (blast intro: prefixPaths_hd)
  show "Path (heap (snd (AsGQLErrors (err (fst (fst r))) (snd r))) p) = [] \<longrightarrow>
           Path (heap (snd (addResponseName rn r)) p) = []"
    unfolding addResponseName_heap by (blast intro: prefixPaths_keeps_empty)
qed

text \<open>
  Claim C4. Every error in the list that \<open>resolve\<close> returns whose path is not empty has
  the mutation's response name as first path element, also when the same error object
  occurs in the list several times; and an error whose path was empty before the
  prefixing still has an empty path.
\<close>

theorem resolve_error_paths_prefixed:
  "\<forall>p \<in> set (errorList (fst (fst (resolve mr w)))).
     (Path (heap (snd (resolve mr w)) p) \<noteq> [] \<longrightarrow>
        hd (Path (heap (snd (resolve mr w)) p)) = PathField (ResponseName (mutation mr))) \<and>
     (Path (storeBeforePrefix mr w p) = [] \<longrightarrow> Path (heap (snd (resolve mr w)) p) = [])"
proof (cases "MutationType (mutation mr)")
  case NotSupportedMutation
  then show ?thesis
    by (simp add: resolve_def storeBeforePrefix_def Errorf_def alloc_def errorList_def
          split: prod.split)
next
  case AddMutation
  then have "resolve mr w = addResponseName (ResponseName (mutation mr)) (resolveMutation mr w)"
    by (simp add: resolve_def)
  with AddMutation show ?thesis
    using addResponseName_paths [of _ "ResponseName (mutation mr)" "resolveMutation mr w"]
    by (simp add: storeBeforePrefix_def)
next
  case UpdateMutation
  then have "resolve mr w = addResponseName (ResponseName (mutation mr)) (resolveMutation mr w)"
    by (simp add: resolve_def)
  with UpdateMutation show ?thesis
    using addResponseName_paths [of _ "ResponseName (mutation mr)" "resolveMutation mr w"]
    by (simp add: storeBeforePrefix_def)
next
  case DeleteMutation
  then have "resolve mr w
      = addResponseName (ResponseName (mutation mr)) (resolveDeleteMutation mr w)"
    by (simp add: resolve_def)
  with DeleteMutation show ?thesis
    using addResponseName_paths [of _ "ResponseName (mutation mr)" "resolveDeleteMutation mr w"]
    by (simp add: storeBeforePrefix_def)
qed

lemmas fake_defs = fakeResolver_def fakeComplete_def world0_def logCall_def emptyHeap_def alloc_def

text \<open>
  Claim C1, the amended statement at three resolvers: an update whose backend mutation
  fails, an add that runs through, and an unsupported kind.
\<close>

theorem resolve_data_wrapped_by_kind_witness:
  "data (fst (fst (resolve (fakeResolver UpdateMutation 2) world0))) = ''\"addUser\": null'' \<and>
   data (fst (fst (resolve (fakeResolver AddMutation 0) world0))) = ''\"addUser\": {}'' \<and>
   data (fst (fst (resolve (fakeResolver NotSupportedMutation 0) world0))) = []"
  using resolve_data_wrapped_by_kind [of "fakeResolver UpdateMutation 2" world0]
    resolve_data_wrapped_by_kind [of "fakeResolver AddMutation 0" world0]
    resolve_data_wrapped_by_kind [of "fakeResolver NotSupportedMutation 0" world0]
  by (simp add: fake_defs wrapData_def resolveMutation_def GQLWrapLocationf_def GQLWrapf_def
        mutationFailed_def mutationSucceeded_def)

text \<open>
  Claim C2 at an add mutation whose backend \<open>Mutate\<close> fails.
\<close>

theorem resolve_fatal_failure_null_data_witness:
  "MutationType (mutation (fakeResolver AddMutation 2)) = AddMutation \<and>
   Rewrite (mutationRewriter (fakeResolver AddMutation 2)) (mutation (fakeResolver AddMutation 2))
     world0 = ((''set'', None), world0) \<and>
   Mutate (dgraph (fakeResolver AddMutation 2)) ''set'' world0
     = ((0, Some (PlainError ''aborted'')), logCall ''Mutate'' world0) \<and>
   snd (fst (resolve (fakeResolver AddMutation 2) world0)) = False \<and>
   data (fst (fst (resolve (fakeResolver AddMutation 2) world0))) = ''\"addUser\": null''"
proof -
  have k: "MutationType (mutation (fakeResolver AddMutation 2)) = AddMutation \<or>
           MutationType (mutation (fakeResolver AddMutation 2)) = UpdateMutation"
    by (simp add: fakeResolver_def)
  have r: "Rewrite (mutationRewriter (fakeResolver AddMutation 2))
             (mutation (fakeResolver AddMutation 2)) world0 = ((''set'', None), world0)"
    by (simp add: fakeResolver_def)
  have m: "Mutate (dgraph (fakeResolver AddMutation 2)) ''set'' world0
             = ((0, Some (PlainError ''aborted'')), logCall ''Mutate'' world0)"
    by (simp add: fakeResolver_def)
  from r m have f:
    "(\<exists>mut e w1. Rewrite (mutationRewriter (fakeResolver AddMutation 2))
         (mutation (fakeResolver AddMutation 2)) world0 = ((mut, Some e), w1)) \<or>
     (\<exists>mut w1 assigned e w2.
        Rewrite (mutationRewriter (fakeResolver AddMutation 2))
          (mutation (fakeResolver AddMutation 2)) world0 = ((mut, None), w1) \<and>
        Mutate (dgraph (fakeResolver AddMutation 2)) mut w1 = ((assigned, Some e), w2))"
    by blast
  from resolve_fatal_failure_null_data [OF k f] k r m show ?thesis
    by (simp add: fakeResolver_def)
qed

text \<open>
  Claim C3 at an update mutation whose follow-up \<open>Query\<close> fails.
\<close>

theorem resolve_followup_failure_succeeded_with_errors_witness:
  "MutationType (mutation (fakeResolver UpdateMutation 4)) = UpdateMutation \<and>
   Query (dgraph (fakeResolver UpdateMutation 4)) ''get'' (logCall ''Mutate'' world0)
     = (([], Some (PlainError ''timeout'')), logCall ''Query'' (logCall ''Mutate'' world0)) \<and>
   snd (fst (resolve (fakeResolver UpdateMutation 4) world0)) = True \<and>
   errorList (fst (fst (resolve (fakeResolver UpdateMutation 4) world0))) \<noteq> []"
proof -
  have k: "MutationType (mutation (fakeResolver UpdateMutation 4)) = AddMutation \<or>
           MutationType (mutation (fakeResolver UpdateMutation 4)) = UpdateMutation"
    by (simp add: fakeResolver_def)
  have r: "Rewrite (mutationRewriter (fakeResolver UpdateMutation 4))
             (mutation (fakeResolver UpdateMutation 4)) world0 = ((''set'', None), world0)"
    by (simp add: fakeResolver_def)
  have m: "Mutate (dgraph (fakeResolver UpdateMutation 4)) ''set'' world0
             = ((7, None), logCall ''Mutate'' world0)"
    by (simp add: fakeResolver_def)
  have q: "FromMutationResult (queryRewriter (fakeResolver UpdateMutation 4))
             (mutation (fakeResolver UpdateMutation 4)) 7 (logCall ''Mutate'' world0)
             = ((''get'', None), logCall ''Mutate'' world0)"
    by (simp add: fakeResolver_def)
  have e: "Query (dgraph (fakeResolver UpdateMutation 4)) ''get'' (logCall ''Mutate'' world0)
             = (([], Some (PlainError ''timeout'')), logCall ''Query'' (logCall ''Mutate'' world0))"
    by (simp add: fakeResolver_def)
  from q e have f:
    "(\<exists>q e w3. FromMutationResult (queryRewriter (fakeResolver UpdateMutation 4))
         (mutation (fakeResolver UpdateMutation 4)) 7 (logCall ''Mutate'' world0)
           = ((q, Some e), w3)) \<or>
     (\<exists>q w3 resp e w4.
        FromMutationResult (queryRewriter (fakeResolver UpdateMutation 4))
          (mutation (fakeResolver UpdateMutation 4)) 7 (logCall ''Mutate'' world0)
            = ((q, None), w3) \<and>
        Query (dgraph (fakeResolver UpdateMutation 4)) q w3 = ((resp, Some e), w4))"
    by blast
  from resolve_followup_failure_succeeded_with_errors [OF k r m f] e show ?thesis
    by (simp add: fakeResolver_def)
qed

text \<open>
  Claim C5 at a delete mutation that succeeds: the backend saw \<open>DeleteNodes\<close> and
  nothing else.
\<close>

theorem resolve_delete_success_witness:
  "MutationType (mutation (fakeResolver DeleteMutation 0)) = DeleteMutation \<and>
   snd (fst (resolve (fakeResolver DeleteMutation 0) world0)) = True \<and>
   data (fst (fst (resolve (fakeResolver DeleteMutation 0) world0)))
     = ''\"addUser\": { \"msg\": \"Deleted\" }'' \<and>
   errorList (fst (fst (resolve (fakeResolver DeleteMutation 0) world0))) = [] \<and>
   ext (snd (resolve (fakeResolver DeleteMutation 0) world0)) = [''DeleteNodes'']"
proof -
  have k: "MutationType (mutation (fakeResolver DeleteMutation 0)) = DeleteMutation"
    by (simp add: fakeResolver_def)
  have r: "RewriteDelete (mutationRewriter (fakeResolver DeleteMutation 0))
             (mutation (fakeResolver DeleteMutation 0)) world0
             = ((''find'', ''delete'', None), world0)"
    by (simp add: fakeResolver_def)
  have d: "DeleteNodes (dgraph (fakeResolver DeleteMutation 0)) ''find'' ''delete'' world0
             = (None, logCall ''DeleteNodes'' world0)"
    by (simp add: fakeResolver_def)
  from resolve_delete_success [OF k r d] k show ?thesis
    by (simp add: fakeResolver_def logCall_def world0_def)
qed

text \<open>
  Claim C4 at an add mutation whose completion reports the error list \<open>[0, 1, 0]\<close>:
  object 0 has a path and occurs twice, object 1 has none.
\<close>

theorem resolve_error_paths_prefixed_witness:
  "errorList (fst (fst (resolve (fakeResolver AddMutation 0) world0))) = [0, 1, 0] \<and>
   Path (storeBeforePrefix (fakeResolver AddMutation 0) world0 0)
     = [PathField ''user'', PathIndex 0] \<and>
   Path (storeBeforePrefix (fakeResolver AddMutation 0) world0 1) = [] \<and>
   hd (Path (heap (snd (resolve (fakeResolver AddMutation 0) world0)) 0))
     = PathField ''addUser'' \<and>
   Path (heap (snd (resolve (fakeResolver AddMutation 0) world0)) 1) = []"
proof -
  have l: "errorList (fst (fst (resolve (fakeResolver AddMutation 0) world0))) = [0, 1, 0]"
    by (simp add: resolve_def addResponseName_errorList resolveMutation_def fake_defs
          AsGQLErrors_def mutationSucceeded_def)
  have b0: "Path (storeBeforePrefix (fakeResolver AddMutation 0) world0 0)
              = [PathField ''user'', PathIndex 0]"
    by (simp add: storeBeforePrefix_def resolveMutation_def fake_defs
          AsGQLErrors_def mutationSucceeded_def)
  have b1: "Path (storeBeforePrefix (fakeResolver AddMutation 0) world0 1) = []"
    by (simp add: storeBeforePrefix_def resolveMutation_def fake_defs
          AsGQLErrors_def mutationSucceeded_def)
  have n0: "Path (heap (snd (resolve (fakeResolver AddMutation 0) world0)) 0) \<noteq> []"
    by (simp add: resolve_def addResponseName_heap resolveMutation_def fake_defs
          AsGQLErrors_def mutationSucceeded_def)
  from resolve_error_paths_prefixed [of "fakeResolver AddMutation 0" world0] l b0 b1 n0
  show ?thesis
    by (simp add: fakeResolver_def)
qed

section \<open>Properties of the replication pipeline\<close>








text \<open>
  Claim C6 fails on the code. The message deserialises, the three records are fed, and
  the loader's \<open>Finish\<close> reports an error and has written nothing; \<open>ConsumeClaim\<close>
  still marks the message and returns nil. The results of \<open>Set\<close> and \<open>Finish\<close> are
  dropped by the code, while the result of \<open>Unmarshal\<close> is checked.
\<close>

theorem consume_marks_message_after_failed_load:
  "Unmarshal (testEnv True False 0) (cmValue message1)
     = Inr [(''a'', ''1''), (''b'', ''2''), (''a'', ''3'')] \<and>
   loaderFinish (testEnv True False 0) ()
       \<lparr>committed = Map.empty, pending = [(''a'', ''1''), (''b'', ''2''), (''a'', ''3'')]\<rparr>
     = (Some ''no space left on device'', \<lparr>committed = Map.empty, pending = []\<rparr>) \<and>
   fst (ConsumeClaim (testEnv True False 0) [message1] state0) = None \<and>
   marked (snd (ConsumeClaim (testEnv True False 0) [message1] state0)) = [(message1, [])] \<and>
   committed (Pstore (snd (ConsumeClaim (testEnv True False 0) [message1] state0)))
     = Map.empty"
  by (simp add: testEnv_def message1_def state0_def orderedNewLoader_def orderedSet_def
        failingFinish_def Let_def)

text \<open>
  Claim C9 fails on the code. The list serialises, \<open>SendMessage\<close> reports an error, and
  the log of the callback holds a single entry, the one that says the list was
  produced: the same log as for a delivery that succeeded, with no entry for the
  failure.
\<close>

theorem producer_delivery_failure_not_logged:
  "Marshal (testEnv False True 0) [(''a'', ''1'')] = Inr ''a1'' \<and>
   SendMessage (testEnv False True 0) 0 \<lparr>pmTopic = ''dgraph'', pmValue = ''a1''\<rparr> []
     = ((0, 0, Some ''request timed out''), []) \<and>
   glog (cb (testEnv False True 0) 0 [(''a'', ''1'')] state0)
     = [LogEntry INFO ''produced a list with %d messages to kafka'' [NatArg 1]] \<and>
   glog (cb (testEnv False True 0) 0 [(''a'', ''1'')] state0)
     = glog (cb (testEnv False False 0) 0 [(''a'', ''1'')] state0)"
  by (simp add: testEnv_def state0_def cb_def glogVInfof_def)

lemma connectLoop_succeeds:
  assumes "k < 10" and "i \<le> k"
    and "\<forall>j. i \<le> j \<and> j < k \<longrightarrow> isl (construct j)"
    and "construct k = Inr c"
  shows "connectLoop construct format i r st
           = ((Some c, None),
              st\<lparr>glog := glog st @ map (\<lambda>j. LogEntry ERROR format [ErrArg (projl (construct j))]) [i..<k],
                 slept := slept st + 5 * (k - i)\<rparr>)"
  using assms
proof (induction "k - i" arbitrary: i r st)
  case 0
  then have "i = k" by simp
  with 0 show ?case
    by (subst connectLoop.simps) simp
next
  case (Suc d)
  then have lt: "i < k" by simp
  with Suc.prems have "isl (construct i)" by simp
  then obtain e where e: "construct i = Inl e" by (cases "construct i") auto
  have d: "d = k - (i + 1)" using Suc.hyps(2) by simp
  have step: "connectLoop construct format i r st
      = connectLoop construct format (i + 1) (None, Some e)
          (st\<lparr>glog := glogErrorf format [ErrArg e] (glog st), slept := slept st + 5\<rparr>)"
    using lt Suc.prems(1) e by (subst connectLoop.simps) simp
  have ih: "connectLoop construct format (i + 1) (None, Some e)
          (st\<lparr>glog := glogErrorf format [ErrArg e] (glog st), slept := slept st + 5\<rparr>)
      = ((Some c, None),
         (st\<lparr>glog := glogErrorf format [ErrArg e] (glog st), slept := slept st + 5\<rparr>)
           \<lparr>glog := glog (st\<lparr>glog := glogErrorf format [ErrArg e] (glog st), slept := slept st + 5\<rparr>)
                      @ map (\<lambda>j. LogEntry ERROR format [ErrArg (projl (construct j))]) [i + 1..<k],
            slept := slept (st\<lparr>glog := glogErrorf format [ErrArg e] (glog st), slept := slept st + 5\<rparr>)
                      + 5 * (k - (i + 1))\<rparr>)"
    using Suc.prems lt by (intro Suc.hyps(1) [OF d]) auto
  have upt: "[i..<k] = i # [i + 1..<k]" using lt by (simp add: upt_conv_Cons)
  have ar: "slept st + 5 + 5 * (k - Suc i) = slept st + 5 * (k - i)" using lt by simp
  show ?case
    unfolding step ih by (simp add: glogErrorf_def upt e ar)
qed

lemma connectLoop_exhausted:
  assumes "i < 10" and "\<forall>j. i \<le> j \<and> j < 10 \<longrightarrow> isl (construct j)"
  shows "fst (connectLoop construct format i r st) = (None, Some (projl (construct 9)))"
  using assms
proof (induction "9 - i" arbitrary: i r st)
  case 0
  then have i: "i = 9" by simp
  with 0 have "isl (construct 9)" by simp
  then obtain e where e: "construct 9 = Inl e" by (cases "construct 9") auto
  have "connectLoop construct format 9 r st
      = connectLoop construct format 10 (None, Some e)
          (st\<lparr>glog := glogErrorf format [ErrArg e] (glog st), slept := slept st + 5\<rparr>)"
    using e by (subst connectLoop.simps) simp
  also have "fst \<dots> = (None, Some e)"
    by (subst connectLoop.simps) simp
  finally show ?case using i e by simp
next
  case (Suc d)
  then have lt: "i < 9" by simp
  with Suc.prems have "isl (construct i)" by simp
  then obtain e where e: "construct i = Inl e" by (cases "construct i") auto
  have d: "d = 9 - (i + 1)" using Suc.hyps(2) by simp
  have step: "connectLoop construct format i r st
      = connectLoop construct format (i + 1) (None, Some e)
          (st\<lparr>glog := glogErrorf format [ErrArg e] (glog st), slept := slept st + 5\<rparr>)"
    using lt e by (subst connectLoop.simps) simp
  show ?case
    unfolding step using Suc.prems lt by (intro Suc.hyps(1) [OF d]) auto
qed

lemma setupKafkaSource_outcome:
  assumes "SourceBrokers E \<noteq> []"
  shows "fst (setupKafkaSource E st)
           = (case fst (connectLoop (consumerGroupAttempt E)
                          ''unable to create the kafka consumer, will retry in 5 seconds: %v''
                          0 (None, None)
                          (st\<lparr>glog := glogInfof ''source kafka brokers: %v''
                                         [StrArg (SourceBrokers E)] (glog st)\<rparr>)) of
                (client, Some e) \<Rightarrow> SourcePanic e
              | (client, None) \<Rightarrow> SourceConsuming client \<lparr>ready = ChanOpen\<rparr>)"
proof -
  have cg: "NewConsumerGroup E (Split (SourceBrokers E) (CHR '','')) (kafkaGroup E)
              ((NewConfig E)\<lparr>Version := [2, 2, 0, 0]\<rparr>) = consumerGroupAttempt E"
    by (simp add: fun_eq_iff consumerGroupAttempt_def)
  show ?thesis
    using assms
    by (simp add: setupKafkaSource_def Let_def cg split: prod.split option.split)
qed

lemma setupKafkaTarget_outcome:
  assumes "TargetBrokers E \<noteq> []"
  shows "setupKafkaTarget E st
           = (case connectLoop (syncProducerAttempt E)
                     ''unable to create the kafka sync producer, will retry in 5 seconds: %v''
                     0 (None, None)
                     (st\<lparr>glog := glogInfof ''target kafka brokers: %v''
                                    [StrArg (TargetBrokers E)] (glog st)\<rparr>) of
                ((producer, Some e), st2) \<Rightarrow>
                  (TargetGaveUp,
                   st2\<lparr>glog := glog st2 @
                      [LogEntry ERROR
                         ''unable to create the kafka sync producer, and will not publish updates''
                         []]\<rparr>)
              | ((producer, None), st2) \<Rightarrow>
                  (TargetSubscribed producer,
                   st2\<lparr>glog := glogVInfof (verbosity E) 1
                                   ''subscribed to the pstore for updates'' [] (glog st2)\<rparr>))"
proof -
  have sp: "NewSyncProducer E (Split (TargetBrokers E) (CHR '',''))
              ((NewConfig E)\<lparr>ProducerReturnSuccesses := True\<rparr>) = syncProducerAttempt E"
    by (simp add: fun_eq_iff syncProducerAttempt_def)
  show ?thesis
    using assms
    by (simp add: setupKafkaTarget_def Let_def sp glogErrorf_def split: prod.split option.split)
qed

text \<open>
  Claim C7. With broker lists configured: if the constructor fails \<open>k\<close> times,
  \<open>k\<close> at most 9, and then succeeds, \<open>setupKafkaSource\<close> goes on to consume with the
  client it got and \<open>setupKafkaTarget\<close> subscribes the callback with the producer it
  got. If the first ten calls all fail, \<open>setupKafkaSource\<close> panics with the tenth error,
  and \<open>setupKafkaTarget\<close> returns after logging that it will not publish updates, with
  no callback subscribed.
\<close>

theorem bootstrap_retry_asymmetry:
  assumes src: "SourceBrokers E \<noteq> []" and tgt: "TargetBrokers E \<noteq> []"
  shows "(k < 10 \<and> (\<forall>j<k. isl (consumerGroupAttempt E j)) \<and> consumerGroupAttempt E k = Inr c
            \<longrightarrow> fst (setupKafkaSource E st) = SourceConsuming (Some c) \<lparr>ready = ChanOpen\<rparr>) \<and>
         (k < 10 \<and> (\<forall>j<k. isl (syncProducerAttempt E j)) \<and> syncProducerAttempt E k = Inr p
            \<longrightarrow> fst (setupKafkaTarget E st) = TargetSubscribed (Some p)) \<and>
         ((\<forall>j<10. isl (consumerGroupAttempt E j))
            \<longrightarrow> fst (setupKafkaSource E st) = SourcePanic (projl (consumerGroupAttempt E 9))) \<and>
         ((\<forall>j<10. isl (syncProducerAttempt E j))
            \<longrightarrow> fst (setupKafkaTarget E st) = TargetGaveUp \<and>
                last (glog (snd (setupKafkaTarget E st)))
                  = LogEntry ERROR
                      ''unable to create the kafka sync producer, and will not publish updates'' [])"
proof -
  have source_up: "fst (setupKafkaSource E st) = SourceConsuming (Some c) \<lparr>ready = ChanOpen\<rparr>"
    if a: "k < 10 \<and> (\<forall>j<k. isl (consumerGroupAttempt E j)) \<and> consumerGroupAttempt E k = Inr c"
  proof -
    from a have pre: "\<forall>j. 0 \<le> j \<and> j < k \<longrightarrow> isl (consumerGroupAttempt E j)" by simp
    have "fst (connectLoop (consumerGroupAttempt E) format 0 r st') = (Some c, None)"
      for format r and st' :: "('a, 'b, 'd) procState"
      using connectLoop_succeeds [OF _ _ pre, of c format r st'] a by simp
    then show ?thesis
      by (simp add: setupKafkaSource_outcome [OF src])
  qed
  have target_up: "fst (setupKafkaTarget E st) = TargetSubscribed (Some p)"
    if a: "k < 10 \<and> (\<forall>j<k. isl (syncProducerAttempt E j)) \<and> syncProducerAttempt E k = Inr p"
  proof -
    from a have pre: "\<forall>j. 0 \<le> j \<and> j < k \<longrightarrow> isl (syncProducerAttempt E j)" by simp
    have "\<exists>st2. connectLoop (syncProducerAttempt E) format 0 r st' = ((Some p, None), st2)"
      for format r and st' :: "('a, 'b, 'd) procState"
      using connectLoop_succeeds [OF _ _ pre, of p format r st'] a by simp
    then obtain st2 where
      "connectLoop (syncProducerAttempt E)
         ''unable to create the kafka sync producer, will retry in 5 seconds: %v''
         0 (None, None)
         (st\<lparr>glog := glogInfof ''target kafka brokers: %v''
                        [StrArg (TargetBrokers E)] (glog st)\<rparr>) = ((Some p, None), st2)"
      by blast
    then show ?thesis
      by (simp add: setupKafkaTarget_outcome [OF tgt])
  qed
  have source_down:
    "fst (setupKafkaSource E st) = SourcePanic (projl (consumerGroupAttempt E 9))"
    if a: "\<forall>j<10. isl (consumerGroupAttempt E j)"
  proof -
    from a have pre: "\<forall>j. 0 \<le> j \<and> j < 10 \<longrightarrow> isl (consumerGroupAttempt E j)" by simp
    have "fst (connectLoop (consumerGroupAttempt E) format 0 r st')
            = (None, Some (projl (consumerGroupAttempt E 9)))"
      for format r and st' :: "('a, 'b, 'd) procState"
      using connectLoop_exhausted [OF _ pre, of format r st'] by simp
    then show ?thesis
      by (simp add: setupKafkaSource_outcome [OF src])
  qed
  have target_down:
    "fst (setupKafkaTarget E st) = TargetGaveUp \<and>
     last (glog (snd (setupKafkaTarget E st)))
       = LogEntry ERROR
           ''unable to create the kafka sync producer, and will not publish updates'' []"
    if a: "\<forall>j<10. isl (syncProducerAttempt E j)"
  proof -
    from a have pre: "\<forall>j. 0 \<le> j \<and> j < 10 \<longrightarrow> isl (syncProducerAttempt E j)" by simp
    have "fst (connectLoop (syncProducerAttempt E) format 0 r st')
            = (None, Some (projl (syncProducerAttempt E 9)))"
      for format r and st' :: "('a, 'b, 'd) procState"
      using connectLoop_exhausted [OF _ pre, of format r st'] by simp
    then obtain st2 where
      "connectLoop (syncProducerAttempt E)
         ''unable to create the kafka sync producer, will retry in 5 seconds: %v''
         0 (None, None)
         (st\<lparr>glog := glogInfof ''target kafka brokers: %v''
                        [StrArg (TargetBrokers E)] (glog st)\<rparr>)
       = ((None, Some (projl (syncProducerAttempt E 9))), st2)"
      by (metis prod.collapse)
    then show ?thesis
      by (simp add: setupKafkaTarget_outcome [OF tgt])
  qed
  from source_up target_up source_down target_down show ?thesis by blast
qed

text \<open>
  Claim C7 at a broker that refuses nine calls and accepts the tenth, and at a broker
  that refuses ten.
\<close>

theorem bootstrap_retry_asymmetry_witness:
  "fst (setupKafkaSource (testEnv False False 9) state0)
     = SourceConsuming (Some 9) \<lparr>ready = ChanOpen\<rparr> \<and>
   fst (setupKafkaTarget (testEnv False False 9) state0) = TargetSubscribed (Some 9) \<and>
   fst (setupKafkaSource (testEnv False False 10) state0) = SourcePanic ''connection refused'' \<and>
   fst (setupKafkaTarget (testEnv False False 10) state0) = TargetGaveUp"
proof -
  have s9: "SourceBrokers (testEnv False False 9) \<noteq> []"
    and t9: "TargetBrokers (testEnv False False 9) \<noteq> []"
    and s10: "SourceBrokers (testEnv False False 10) \<noteq> []"
    and t10: "TargetBrokers (testEnv False False 10) \<noteq> []"
    by (simp_all add: testEnv_def)
  have up: "(9::nat) < 10 \<and> (\<forall>j<9. isl (consumerGroupAttempt (testEnv False False 9) j)) \<and>
            consumerGroupAttempt (testEnv False False 9) 9 = Inr 9"
    and up': "(9::nat) < 10 \<and> (\<forall>j<9. isl (syncProducerAttempt (testEnv False False 9) j)) \<and>
            syncProducerAttempt (testEnv False False 9) 9 = Inr 9"
    by (simp_all add: testEnv_def consumerGroupAttempt_def syncProducerAttempt_def)
  have down: "\<forall>j<10. isl (consumerGroupAttempt (testEnv False False 10) j)"
    and down': "\<forall>j<10. isl (syncProducerAttempt (testEnv False False 10) j)"
    and e: "projl (consumerGroupAttempt (testEnv False False 10) 9) = ''connection refused''"
    by (simp_all add: testEnv_def consumerGroupAttempt_def syncProducerAttempt_def)
  from bootstrap_retry_asymmetry [OF s9 t9, of 9 9 state0 9] up up'
    bootstrap_retry_asymmetry [OF s10 t10, of 0 0 state0 0] down down' e
  show ?thesis by simp
qed

lemma driverLoop_closed:
  "driverLoop (Suc n) \<lparr>ready = ChanClosed\<rparr> = Inl ''close of closed channel''"
  by (simp add: Consume_def Setup_def closeChan_def)

text \<open>
  Claim C10. A \<open>Setup\<close> that follows a \<open>Setup\<close> which returned, on the same consumer,
  panics with the runtime's message for closing a closed channel. The consumer that
  \<open>setupKafkaSource\<close> makes and hands to the driver loop gets through the first session
  and panics in every run of the loop that reaches a second one.
\<close>

theorem second_session_closes_closed_channel:
  "(Setup consumer = Inr (e, consumer1) \<longrightarrow> Setup consumer1 = Inl ''close of closed channel'') \<and>
   (fst (setupKafkaSource E st) = SourceConsuming client consumer0 \<longrightarrow>
      driverLoop 1 consumer0 = Inr \<lparr>ready = ChanClosed\<rparr> \<and>
      driverLoop (Suc (Suc n)) consumer0 = Inl ''close of closed channel'')"
proof (intro conjI impI)
  assume "Setup consumer = Inr (e, consumer1)"
  then have "ready consumer1 = ChanClosed"
    by (auto simp: Setup_def closeChan_def split: chanState.splits)
  then show "Setup consumer1 = Inl ''close of closed channel''"
    by (simp add: Setup_def closeChan_def)
next
  assume a: "fst (setupKafkaSource E st) = SourceConsuming client consumer0"
  then have c0: "consumer0 = \<lparr>ready = ChanOpen\<rparr>"
    by (auto simp: setupKafkaSource_def Let_def split: if_splits prod.splits option.splits)
  have one: "Consume \<lparr>ready = ChanOpen\<rparr> = Inr (None, \<lparr>ready = ChanClosed\<rparr>)"
    by (simp add: Consume_def Setup_def Cleanup_def closeChan_def)
  from c0 one show "driverLoop 1 consumer0 = Inr \<lparr>ready = ChanClosed\<rparr>"
    by simp
  have "driverLoop (Suc (Suc n)) \<lparr>ready = ChanOpen\<rparr> = driverLoop (Suc n) \<lparr>ready = ChanClosed\<rparr>"
    using one by simp
  with c0 show "driverLoop (Suc (Suc n)) consumer0 = Inl ''close of closed channel''"
    by (simp only: driverLoop_closed)
qed

text \<open>
  Claim C10 at the consumer of a source that connects at once.
\<close>

theorem second_session_closes_closed_channel_witness:
  "Setup \<lparr>ready = ChanOpen\<rparr> = Inr (None, \<lparr>ready = ChanClosed\<rparr>) \<and>
   Setup \<lparr>ready = ChanClosed\<rparr> = Inl ''close of closed channel'' \<and>
   fst (setupKafkaSource (testEnv False False 0) state0)
     = SourceConsuming (Some 0) \<lparr>ready = ChanOpen\<rparr> \<and>
   driverLoop 1 \<lparr>ready = ChanOpen\<rparr> = Inr \<lparr>ready = ChanClosed\<rparr> \<and>
   driverLoop 2 \<lparr>ready = ChanOpen\<rparr> = Inl ''close of closed channel''"
proof -
  have s: "Setup \<lparr>ready = ChanOpen\<rparr> = Inr (None, \<lparr>ready = ChanClosed\<rparr>)"
    by (simp add: Setup_def closeChan_def)
  have src: "SourceBrokers (testEnv False False 0) \<noteq> []"
    by (simp add: testEnv_def)
  have k: "fst (setupKafkaSource (testEnv False False 0) state0)
             = SourceConsuming (Some 0) \<lparr>ready = ChanOpen\<rparr>"
    unfolding setupKafkaSource_outcome [OF src]
    by (simp add: connectLoop.simps [of _ _ 0] consumerGroupAttempt_def testEnv_def)
  have two: "Suc (Suc 0) = 2" by simp
  from second_session_closes_closed_channel
         [of "\<lparr>ready = ChanOpen\<rparr>" None "\<lparr>ready = ChanClosed\<rparr>" "testEnv False False 0" state0
             "Some 0" "\<lparr>ready = ChanOpen\<rparr>" 0] s k
  show ?thesis by (simp only: two simp_thms)
qed

text \<open>
  The parts of claims C6 and C9 that the code keeps: a message that does not
  deserialise ends the loop, is not marked and leaves storage alone; every marked
  message deserialised; a list that does not serialise is logged and nothing is sent;
  a list that serialises is handed to \<open>SendMessage\<close> once, and the log afterwards does
  not depend on what \<open>SendMessage\<close> returned.
\<close>

lemma ConsumeClaim_corrupt_message:
  assumes "Unmarshal E (cmValue message) = Inl e"
  shows "fst (ConsumeClaim E (message # rest) st) = Some e"
    and "marked (snd (ConsumeClaim E (message # rest) st)) = marked st"
    and "Pstore (snd (ConsumeClaim E (message # rest) st)) = Pstore st"
  using assms by simp_all

lemma ConsumeClaim_marked_decodable:
  "(m, meta) \<in> set (marked (snd (ConsumeClaim E ms st))) \<Longrightarrow>
     (m, meta) \<in> set (marked st) \<or> (m \<in> set ms \<and> \<not> isl (Unmarshal E (cmValue m)))"
proof (induction ms arbitrary: st)
  case Nil
  then show ?case by simp
next
  case (Cons a ms)
  show ?case
  proof (cases "Unmarshal E (cmValue a)")
    case (Inl e)
    with Cons.prems show ?thesis by simp
  next
    case (Inr kvs)
    obtain loader s1 where l: "NewLoader E 16 (Pstore st) = (loader, s1)"
      by (cases "NewLoader E 16 (Pstore st)")
    from Cons.prems Inr l
    have "(m, meta) \<in> set (marked st @ [(a, [])]) \<or>
          (m \<in> set ms \<and> \<not> isl (Unmarshal E (cmValue m)))"
      by (auto simp: Let_def dest!: Cons.IH)
    with Inr show ?thesis by auto
  qed
qed

lemma cb_marshal_failure:
  assumes "Marshal E list = Inl e"
  shows "broker (cb E producer list st) = broker st"
    and "glog (cb E producer list st)
           = glog st @ [LogEntry ERROR ''unable to marshal the kv list: %+v'' [ErrArg e]]"
  using assms by (simp_all add: cb_def glogErrorf_def)

lemma cb_publishes_once:
  assumes "Marshal E list = Inr listBytes"
  shows "broker (cb E producer list st)
           = snd (SendMessage E producer \<lparr>pmTopic = kafkaTopic E, pmValue = listBytes\<rparr> (broker st))"
    and "glog (cb E producer list st)
           = glogVInfof (verbosity E) 1 ''produced a list with %d messages to kafka''
               [NatArg (length list)] (glog st)"
  using assms by (simp_all add: cb_def split: prod.split)

end
